theory Spec2Isabelle
  imports Complex_Main "HOL-Library.Word"
begin

section \<open>JavaScript values shared by the front end\<close>

text \<open>
  A JavaScript string is a sequence of UTF-16 code units.  \<open>of_ascii\<close> writes an ASCII
  literal as such a sequence.
\<close>

type_synonym jsstring = "16 word list"

definition of_ascii :: "string \<Rightarrow> jsstring" where
  "of_ascii s = map (\<lambda>c. of_nat (of_char c)) s"

text \<open>
  \<open>String.prototype.trim\<close> removes WhiteSpace and LineTerminator code units from both
  ends: TAB, VT, FF, SP, NBSP, ZWNBSP, the category Zs, and LF, CR, LS, PS.
\<close>

definition isWhiteSpace :: "16 word \<Rightarrow> bool" where
  "isWhiteSpace c \<longleftrightarrow>
     c \<in> set [0x9, 0xA, 0xB, 0xC, 0xD, 0x20, 0xA0, 0x1680, 0x2028, 0x2029,
               0x202F, 0x205F, 0x3000, 0xFEFF]
     \<or> (0x2000 \<le> c \<and> c \<le> 0x200A)"

definition trim :: "jsstring \<Rightarrow> jsstring" where
  "trim s = rev (dropWhile isWhiteSpace (rev (dropWhile isWhiteSpace s)))"

text \<open>
  The values a JSON body can hold where the code reads a property: \<open>undefined\<close> (the
  property is absent), \<open>null\<close>, a string, or any other value (a number, a boolean, an
  array, an object), of which the code only ever needs its truthiness and \<open>String(v)\<close>.
\<close>

datatype jsvalue = JUndefined | JNull | JString jsstring | JOther bool jsstring

text \<open>\<open>String(v)\<close>, also what a template literal makes of \<open>v\<close>.\<close>

definition to_string :: "jsvalue \<Rightarrow> jsstring" where
  "to_string v =
     (case v of
        JUndefined \<Rightarrow> of_ascii ''undefined''
      | JNull \<Rightarrow> of_ascii ''null''
      | JString s \<Rightarrow> s
      | JOther t r \<Rightarrow> r)"

text \<open>What \<open>if (v)\<close> tests.\<close>

definition truthy :: "jsvalue \<Rightarrow> bool" where
  "truthy v =
     (case v of
        JUndefined \<Rightarrow> False
      | JNull \<Rightarrow> False
      | JString s \<Rightarrow> s \<noteq> []
      | JOther t r \<Rightarrow> t)"

text \<open>\<open>v ?? d\<close>\<close>

definition nullish_or :: "jsvalue \<Rightarrow> jsvalue \<Rightarrow> jsvalue" where
  "nullish_or v d = (case v of JUndefined \<Rightarrow> d | JNull \<Rightarrow> d | _ \<Rightarrow> v)"

text \<open>
  What \<open>response.json()\<close> resolves to: \<open>null\<close>, from which no property can be read, or a
  value whose properties can be read.  The records below list the properties the code
  reads; a body that is a number, a string, a boolean or an array reads as one whose
  listed properties are all \<open>undefined\<close>.
\<close>

datatype 'a json = NullBody | Obj 'a

text \<open>A \<open>Blob\<close> is known by its bytes only.\<close>

datatype blob = Blob "nat list"

text \<open>
  URLs the front end hands to \<open>new Audio\<close>: the result of \<open>URL.createObjectURL\<close> on a
  blob, or a string received from elsewhere.
\<close>

datatype url = ObjectURL blob | Href jsstring

text \<open>
  The message literals of the \<open>Error\<close> objects and of the \<open>setError\<close> calls.  The source
  writes them in Russian; each constructor stands for one literal (with the interpolated
  HTTP status where the literal has one), and \<open>Runtime\<close> is the message of an \<open>Error\<close>
  raised by the browser itself (a failed \<open>fetch\<close>, a body that is not JSON).
  \<open>EngineTypeError\<close> is the message of the \<open>TypeError\<close> the engine raises when a property
  is read from \<open>null\<close> or \<open>undefined\<close> or when something that is not a function is called.
\<close>

datatype err_message =
    SpeechRecognitionStatus nat  \<comment> \<open>"speech recognition error: <status>"\<close>
  | SpeechNotRecognized          \<comment> \<open>"could not recognise the speech"\<close>
  | AIResponseStatus nat         \<comment> \<open>"error getting the AI response: <status>"\<close>
  | SpeechSynthesisStatus nat    \<comment> \<open>"speech synthesis error: <status>"\<close>
  | AudioFileFailed              \<comment> \<open>"error getting the audio file"\<close>
  | EngineTypeError              \<comment> \<open>the engine's message for a \<open>TypeError\<close>\<close>
  | Runtime jsstring

text \<open>What a \<open>throw\<close> or a rejected promise carries: an \<open>Error\<close> instance or anything else.\<close>

datatype thrown = ErrorObj err_message | NonError

section \<open>avatarService.ts\<close>

text \<open>
  The interfaces declare \<open>text\<close> a string; nothing checks a body against its interface,
  so the property is whatever the body holds there.  \<open>confidence\<close> and \<open>emotion\<close> are never
  read.
\<close>

record SpeechRecognitionResponse =
  sr_text :: jsvalue
  confidence :: real

record AIResponse =
  ai_text :: jsvalue
  emotion :: "jsstring option"

record TTSResponse =
  audio_url :: url
  duration :: real

text \<open>The JSON body of \<open>POST /synthesize\<close>, of which the service reads two fields.\<close>

record SynthesizeResult =
  audio_id :: jsvalue
  result_duration :: "real option"

text \<open>
  One \<open>fetch\<close>, seen from the caller: the promise rejects, or it resolves to a response
  with a status whose body read (\<open>response.json()\<close>, \<open>response.blob()\<close>) rejects or
  yields a value.  \<open>response.ok\<close> is a status in 200..299.
\<close>

datatype 'a fetched = Rejected thrown | Response nat "thrown + 'a"

definition ok :: "nat \<Rightarrow> bool" where
  "ok st \<longleftrightarrow> 200 \<le> st \<and> st \<le> 299"

text \<open>
  The services as one pipeline run meets them: the outcome of each of the four requests
  the run can make.  No request carries a timeout or an abort signal.
\<close>

record services =
  recognize_speech :: "SpeechRecognitionResponse json fetched"
  chat :: "AIResponse json fetched"
  synthesize :: "SynthesizeResult json fetched"
  audio :: "blob fetched"

datatype chat_context = DefaultContext | Context jsstring

text \<open>
  The requests, with what the code puts into them: the blob, the \<open>message\<close> and \<open>context\<close>
  of the chat body, the \<open>text\<close> of the synthesis body (left out of the JSON when
  \<open>undefined\<close>), the last segment of the audio path.
\<close>

datatype request =
    PostRecognizeSpeech blob
  | PostChat jsstring chat_context
  | PostSynthesize jsvalue
  | GetAudio jsstring

text \<open>
  Every service method returns the requests it issued, in order, and either the value its
  promise resolves to or what it rejects with.  A method resolves to the body as
  \<open>response.json()\<close> gave it, unchecked.  The \<open>catch\<close> blocks log and rethrow the error
  they caught, unchanged.
\<close>

definition recognizeSpeech ::
  "services \<Rightarrow> blob \<Rightarrow> request list \<times> (thrown + SpeechRecognitionResponse json)" where
  "recognizeSpeech env audioBlob =
     ([PostRecognizeSpeech audioBlob],
      (case recognize_speech env of
         Rejected e \<Rightarrow> Inl e
       | Response st body \<Rightarrow>
           if \<not> ok st then Inl (ErrorObj (SpeechRecognitionStatus st)) else body))"

definition getAIResponse ::
  "services \<Rightarrow> jsstring \<Rightarrow> jsstring option \<Rightarrow> request list \<times> (thrown + AIResponse json)" where
  "getAIResponse env txt context =
     ([PostChat txt (case context of
                       None \<Rightarrow> DefaultContext
                     | Some c \<Rightarrow> if c = [] then DefaultContext else Context c)],
      (case chat env of
         Rejected e \<Rightarrow> Inl e
       | Response st body \<Rightarrow>
           if \<not> ok st then Inl (ErrorObj (AIResponseStatus st)) else body))"

text \<open>
  In \<open>synthesizeSpeech\<close> the path of the second request is built from \<open>result.audio_id\<close>,
  which throws when \<open>result\<close> is \<open>null\<close> and otherwise takes whatever is there.
\<close>

definition synthesizeSpeech ::
  "services \<Rightarrow> jsvalue \<Rightarrow> request list \<times> (thrown + TTSResponse)" where
  "synthesizeSpeech env txt =
     (case synthesize env of
        Rejected e \<Rightarrow> ([PostSynthesize txt], Inl e)
      | Response st body \<Rightarrow>
          if \<not> ok st then ([PostSynthesize txt], Inl (ErrorObj (SpeechSynthesisStatus st)))
          else
            (case body of
               Inl e \<Rightarrow> ([PostSynthesize txt], Inl e)
             | Inr NullBody \<Rightarrow> ([PostSynthesize txt], Inl (ErrorObj EngineTypeError))
             | Inr (Obj result) \<Rightarrow>
                 ([PostSynthesize txt, GetAudio (to_string (audio_id result))],
                  (case audio env of
                     Rejected e \<Rightarrow> Inl e
                   | Response ast abody \<Rightarrow>
                       if \<not> ok ast then Inl (ErrorObj AudioFileFailed)
                       else
                         (case abody of
                            Inl e \<Rightarrow> Inl e
                          | Inr audioBlob \<Rightarrow>
                              Inr \<lparr>audio_url = ObjectURL audioBlob,
                                   duration = (case result_duration result of
                                                 None \<Rightarrow> 0 | Some d \<Rightarrow> d)\<rparr>)))))"

record PipelineResult =
  recognizedText :: jsstring
  aiResponse :: jsvalue
  audioUrl :: url

text \<open>
  \<open>recognition.text.trim()\<close> throws a \<open>TypeError\<close> unless \<open>recognition\<close> is not \<open>null\<close> and
  its \<open>text\<close> is a string; \<open>aiResponse.text\<close> throws one when \<open>aiResponse\<close> is \<open>null\<close> and
  otherwise is passed to \<open>synthesizeSpeech\<close> as it is.
\<close>

definition processAudioInput ::
  "services \<Rightarrow> blob \<Rightarrow> request list \<times> (thrown + PipelineResult)" where
  "processAudioInput env audioBlob =
     (case recognizeSpeech env audioBlob of
        (c1, Inl e) \<Rightarrow> (c1, Inl e)
      | (c1, Inr NullBody) \<Rightarrow> (c1, Inl (ErrorObj EngineTypeError))
      | (c1, Inr (Obj recognition)) \<Rightarrow>
          (case sr_text recognition of
             JString heard \<Rightarrow>
               if trim heard = [] then (c1, Inl (ErrorObj SpeechNotRecognized))
               else
                 (case getAIResponse env heard None of
                    (c2, Inl e) \<Rightarrow> (c1 @ c2, Inl e)
                  | (c2, Inr NullBody) \<Rightarrow> (c1 @ c2, Inl (ErrorObj EngineTypeError))
                  | (c2, Inr (Obj ai)) \<Rightarrow>
                      (case synthesizeSpeech env (ai_text ai) of
                         (c3, Inl e) \<Rightarrow> (c1 @ c2 @ c3, Inl e)
                       | (c3, Inr tts) \<Rightarrow>
                           (c1 @ c2 @ c3,
                            Inr \<lparr>recognizedText = heard,
                                 aiResponse = ai_text ai,
                                 audioUrl = audio_url tts\<rparr>)))
           | _ \<Rightarrow> (c1, Inl (ErrorObj EngineTypeError))))"

text \<open>
  Services that answer every request of a run with success: the recognised text \<open>heard\<close>,
  the reply \<open>answer\<close>, the audio id \<open>a1\<close> and a one-byte audio file.  The examples below
  start from it and replace the response of one request.
\<close>

definition services_up :: "jsstring \<Rightarrow> jsstring \<Rightarrow> services" where
  "services_up heard answer =
     \<lparr>recognize_speech = Response 200 (Inr (Obj \<lparr>sr_text = JString heard, confidence = 1\<rparr>)),
      chat = Response 200 (Inr (Obj \<lparr>ai_text = JString answer, emotion = None\<rparr>)),
      synthesize =
        Response 200 (Inr (Obj \<lparr>audio_id = JString (of_ascii ''a1''), result_duration = None\<rparr>)),
      audio = Response 200 (Inr (Blob [7]))\<rparr>"

section \<open>checkServices\<close>

text \<open>
  A health probe is a bare \<open>fetch\<close> of \<open>/health\<close>: its promise fulfils with a response
  status, rejects, or never settles (the probe has no timeout of its own).
  \<open>Promise.allSettled\<close> resolves once every promise has settled, so its result is \<open>None\<close>
  when one of them never does.
\<close>

datatype probe = Fulfils nat | Rejects | NeverSettles

datatype settled = fulfilled nat | rejected

definition allSettled :: "probe list \<Rightarrow> settled list option" where
  "allSettled ps =
     (if NeverSettles \<in> set ps then None
      else Some (map (\<lambda>p. case p of Fulfils st \<Rightarrow> fulfilled st | _ \<Rightarrow> rejected) ps))"

record ServiceState =
  backend :: bool
  tts :: bool
  sadtalker :: bool

definition fulfilled_ok :: "settled \<Rightarrow> bool" where
  "fulfilled_ok r = (case r of fulfilled st \<Rightarrow> ok st | rejected \<Rightarrow> False)"

definition checkServices :: "probe \<Rightarrow> probe \<Rightarrow> probe \<Rightarrow> ServiceState option" where
  "checkServices p_backend p_tts p_sadtalker =
     (case allSettled [p_backend, p_tts, p_sadtalker] of
        None \<Rightarrow> None
      | Some results \<Rightarrow>
          Some \<lparr>backend = fulfilled_ok (results ! 0),
                tts = fulfilled_ok (results ! 1),
                sadtalker = fulfilled_ok (results ! 2)\<rparr>)"

section \<open>useWebSocket.ts\<close>

datatype ConnectionStatus = Connecting | Connected | Disconnected | Error

datatype readyState = CONNECTING | OPEN | CLOSING | CLOSED

record UseWebSocketOptions =
  urlValid :: bool  \<comment> \<open>whether \<open>new WebSocket(url)\<close> accepts the URL instead of throwing\<close>
  reconnectInterval :: nat
  maxReconnectAttempts :: nat

definition defaultOptions :: UseWebSocketOptions where
  "defaultOptions = \<lparr>urlValid = True, reconnectInterval = 3000, maxReconnectAttempts = 5\<rparr>"

text \<open>What \<open>sendMessage\<close> is handed: a string, sent as it is, or an object, sent as its JSON.\<close>

datatype outbound = Str jsstring | UserMessageJson jsstring

text \<open>
  The state of the hook.  \<open>sockets\<close> holds the \<open>readyState\<close> of every \<open>WebSocket\<close> the hook
  has constructed, in order of construction, and \<open>wsRef\<close> the index of the one the ref
  points to.  \<open>timers\<close> are the reconnect timers set by \<open>ws.onclose\<close> that have neither
  fired nor been cleared; \<open>setTimeout\<close> hands out the ids \<open>1, 2, ...\<close>, and \<open>nextTimer\<close>
  is the next one.  \<open>sent\<close> lists the frames passed to \<open>ws.send\<close> with their socket.
\<close>

record ws_hook =
  connectionStatus :: ConnectionStatus
  lastMessage :: jsstring
  reconnectAttempts :: nat
  reconnectAttemptsRef :: nat
  wsRef :: "nat option"
  reconnectTimeoutRef :: "nat option"
  sockets :: "readyState list"
  timers :: "nat list"
  nextTimer :: nat
  sent :: "(nat \<times> outbound) list"

definition hook_init :: ws_hook where
  "hook_init =
     \<lparr>connectionStatus = Disconnected, lastMessage = [], reconnectAttempts = 0,
      reconnectAttemptsRef = 0, wsRef = None, reconnectTimeoutRef = None,
      sockets = [], timers = [], nextTimer = 1, sent = []\<rparr>"

text \<open>\<open>wsRef.current?.readyState\<close>: undefined when the ref is null.\<close>

definition current_readyState :: "ws_hook \<Rightarrow> readyState option" where
  "current_readyState h =
     (case wsRef h of
        None \<Rightarrow> None
      | Some i \<Rightarrow> if i < length (sockets h) then Some (sockets h ! i) else None)"

definition connect :: "UseWebSocketOptions \<Rightarrow> ws_hook \<Rightarrow> ws_hook" where
  "connect opts h =
     (if current_readyState h = Some OPEN then h
      else if \<not> urlValid opts then h\<lparr>connectionStatus := Error\<rparr>
      else h\<lparr>connectionStatus := Connecting,
              sockets := sockets h @ [CONNECTING],
              wsRef := Some (length (sockets h))\<rparr>)"

definition ws_onopen :: "ws_hook \<Rightarrow> ws_hook" where
  "ws_onopen h =
     h\<lparr>connectionStatus := Connected, reconnectAttempts := 0, reconnectAttemptsRef := 0\<rparr>"

definition ws_onmessage :: "jsstring \<Rightarrow> ws_hook \<Rightarrow> ws_hook" where
  "ws_onmessage d h = h\<lparr>lastMessage := d\<rparr>"

definition ws_onclose :: "UseWebSocketOptions \<Rightarrow> ws_hook \<Rightarrow> ws_hook" where
  "ws_onclose opts h =
     (if reconnectAttemptsRef h < maxReconnectAttempts opts then
        h\<lparr>connectionStatus := Disconnected,
          reconnectAttemptsRef := reconnectAttemptsRef h + 1,
          reconnectAttempts := reconnectAttemptsRef h + 1,
          reconnectTimeoutRef := Some (nextTimer h),
          timers := timers h @ [nextTimer h],
          nextTimer := nextTimer h + 1\<rparr>
      else h\<lparr>connectionStatus := Error\<rparr>)"

definition ws_onerror :: "ws_hook \<Rightarrow> ws_hook" where
  "ws_onerror h = h\<lparr>connectionStatus := Error\<rparr>"

text \<open>\<open>ws.close()\<close> moves a connecting or open socket to CLOSING and leaves the others.\<close>

definition ws_close :: "readyState \<Rightarrow> readyState" where
  "ws_close r = (if r = CONNECTING \<or> r = OPEN then CLOSING else r)"

definition disconnect :: "ws_hook \<Rightarrow> ws_hook" where
  "disconnect h =
     (let h1 = (case reconnectTimeoutRef h of
                  None \<Rightarrow> h
                | Some t \<Rightarrow>
                    if t = 0 then h
                    else h\<lparr>timers := removeAll t (timers h), reconnectTimeoutRef := None\<rparr>);
          h2 = (case wsRef h1 of
                  None \<Rightarrow> h1
                | Some i \<Rightarrow>
                    h1\<lparr>sockets := (if i < length (sockets h1)
                                     then (sockets h1)[i := ws_close (sockets h1 ! i)]
                                     else sockets h1),
                       wsRef := None\<rparr>)
      in h2\<lparr>connectionStatus := Disconnected, reconnectAttempts := 0,
             reconnectAttemptsRef := 0\<rparr>)"

definition sendMessage :: "outbound \<Rightarrow> ws_hook \<Rightarrow> bool \<times> ws_hook" where
  "sendMessage m h =
     (case wsRef h of
        None \<Rightarrow> (False, h)
      | Some i \<Rightarrow>
          if current_readyState h = Some OPEN then (True, h\<lparr>sent := sent h @ [(i, m)]\<rparr>)
          else (False, h))"

text \<open>
  What the browser and the timers do to the hook.  A socket that opens, closes or fails
  changes its \<open>readyState\<close> and then runs the handler that \<open>connect\<close> attached to it, whether
  or not \<open>wsRef\<close> still points to it; a failing socket fires \<open>error\<close> and then \<open>close\<close>.
  An event that cannot happen in the state (a socket that does not exist or is already
  closed, a timer that is not pending) leaves the state as it is.
\<close>

datatype ws_event =
    Connect
  | Disconnect
  | Send outbound
  | WsOpen nat
  | WsMessage nat jsstring
  | WsClose nat
  | WsFail nat
  | TimerFires nat

definition hook_step :: "UseWebSocketOptions \<Rightarrow> ws_event \<Rightarrow> ws_hook \<Rightarrow> ws_hook" where
  "hook_step opts ev h =
     (case ev of
        Connect \<Rightarrow> connect opts h
      | Disconnect \<Rightarrow> disconnect h
      | Send m \<Rightarrow> snd (sendMessage m h)
      | WsOpen i \<Rightarrow>
          if i < length (sockets h) \<and> sockets h ! i = CONNECTING
          then ws_onopen (h\<lparr>sockets := (sockets h)[i := OPEN]\<rparr>) else h
      | WsMessage i d \<Rightarrow>
          if i < length (sockets h) \<and> sockets h ! i = OPEN then ws_onmessage d h else h
      | WsClose i \<Rightarrow>
          if i < length (sockets h) \<and> sockets h ! i \<noteq> CLOSED
          then ws_onclose opts (h\<lparr>sockets := (sockets h)[i := CLOSED]\<rparr>) else h
      | WsFail i \<Rightarrow>
          if i < length (sockets h) \<and> sockets h ! i \<noteq> CLOSED
          then ws_onclose opts (ws_onerror (h\<lparr>sockets := (sockets h)[i := CLOSED]\<rparr>)) else h
      | TimerFires t \<Rightarrow>
          if t \<in> set (timers h) then connect opts (h\<lparr>timers := removeAll t (timers h)\<rparr>)
          else h)"

definition hook_run :: "UseWebSocketOptions \<Rightarrow> ws_event list \<Rightarrow> ws_hook \<Rightarrow> ws_hook" where
  "hook_run opts evs h = foldl (\<lambda>h ev. hook_step opts ev h) h evs"

text \<open>The events that neither open a transport nor call \<open>disconnect\<close>.\<close>

definition no_open :: "ws_event \<Rightarrow> bool" where
  "no_open ev = (case ev of WsOpen i \<Rightarrow> False | Disconnect \<Rightarrow> False | _ \<Rightarrow> True)"

section \<open>AvatarSystem: the reconnect effect\<close>

text \<open>
  The part of the \<open>AvatarSystem\<close> component that drives the hook: its \<open>isConnected\<close> flag
  and its own reconnect timer (\<open>reconnectTimeoutRef\<close>, at most one pending, since the effect
  clears the previous one before it sets the next).
\<close>

record avatar_link =
  link_ws :: ws_hook
  link_isConnected :: bool
  link_timer :: bool

text \<open>The effect on \<open>[connectionStatus, connect]\<close>, run after a render that changed the status.\<close>

definition reconnect_effect :: "avatar_link \<Rightarrow> avatar_link" where
  "reconnect_effect s =
     (let s1 = s\<lparr>link_isConnected := (connectionStatus (link_ws s) = Connected)\<rparr>
      in if connectionStatus (link_ws s) = Disconnected \<or> connectionStatus (link_ws s) = Error
         then s1\<lparr>link_timer := True\<rparr> else s1)"

text \<open>
  Mounting: the first render sees \<open>Disconnected\<close>; the hook's effect calls \<open>connect\<close>, then
  the component's effect runs on the rendered status, and again after the status changed.
\<close>

definition link_mount :: "UseWebSocketOptions \<Rightarrow> avatar_link" where
  "link_mount opts =
     (let s0 = reconnect_effect \<lparr>link_ws = hook_init, link_isConnected = False, link_timer = False\<rparr>;
          s1 = s0\<lparr>link_ws := connect opts hook_init\<rparr>
      in if connectionStatus (link_ws s1) \<noteq> Disconnected then reconnect_effect s1 else s1)"

text \<open>
  \<open>handleWSOpen\<close>, the \<open>onOpen\<close> callback the component gives the hook, sends a test frame
  (and clears the component's error text, which is not part of this record).  The other
  callbacks only log or set that error text.
\<close>

definition handleWSOpen :: "ws_hook \<Rightarrow> ws_hook" where
  "handleWSOpen h = snd (sendMessage (Str (of_ascii ''ping'')) h)"

datatype link_event = Hook ws_event | LinkTimerFires

definition link_step :: "UseWebSocketOptions \<Rightarrow> link_event \<Rightarrow> avatar_link \<Rightarrow> avatar_link" where
  "link_step opts ev s =
     (let s1 = (case ev of
                  Hook e \<Rightarrow>
                    (let h = hook_step opts e (link_ws s)
                     in s\<lparr>link_ws :=
                            (case e of
                               WsOpen i \<Rightarrow>
                                 if i < length (sockets (link_ws s))
                                    \<and> sockets (link_ws s) ! i = CONNECTING
                                 then handleWSOpen h else h
                             | _ \<Rightarrow> h)\<rparr>)
                | LinkTimerFires \<Rightarrow>
                    if link_timer s
                    then s\<lparr>link_timer := False, link_ws := connect opts (link_ws s)\<rparr> else s)
      in if connectionStatus (link_ws s1) \<noteq> connectionStatus (link_ws s)
         then reconnect_effect s1 else s1)"

definition link_run :: "UseWebSocketOptions \<Rightarrow> link_event list \<Rightarrow> avatar_link \<Rightarrow> avatar_link" where
  "link_run opts evs s = foldl (\<lambda>s ev. link_step opts ev s) s evs"

section \<open>The texts shown by the components\<close>

text \<open>
  The literals the components pass to \<open>setError\<close> and \<open>setProgress\<close>, and the message of a
  caught error.
\<close>

datatype ui_text =
    Empty
  | MessageOf err_message
  | AudioProcessingFailed   \<comment> \<open>"audio processing error", shown for a caught non-Error\<close>
  | ProcessingAudio         \<comment> \<open>"processing the audio..."\<close>
  | Ready                   \<comment> \<open>"done!"\<close>
  | NoServerConnection      \<comment> \<open>"no connection to the server"\<close>
  | MicrophoneFailed        \<comment> \<open>"could not get access to the microphone"\<close>
  | MicrophoneAccessError   \<comment> \<open>"microphone access error"\<close>

text \<open>\<open>error instanceof Error ? error.message : <literal>\<close>\<close>

definition error_text :: "thrown \<Rightarrow> ui_text" where
  "error_text e = (case e of ErrorObj m \<Rightarrow> MessageOf m | NonError \<Rightarrow> AudioProcessingFailed)"

section \<open>ChatInterface.tsx\<close>

text \<open>
  Message ids are \<open>Date.now().toString()\<close> with an optional suffix: the clock reading and
  the suffix.  A handler reads the clock once (\<open>now\<close>), in milliseconds.
\<close>

datatype sender = sender_user | sender_avatar

record ChatMessage =
  cm_id :: "nat \<times> string"
  cm_text :: jsvalue
  cm_sender :: sender
  cm_timestamp :: nat

record chat_interface =
  ci_messages :: "ChatMessage list"
  ci_inputText :: jsstring

text \<open>\<open>isConnected\<close> and \<open>isProcessing\<close> are props of the component.\<close>

definition handleSendMessage :: "bool \<Rightarrow> bool \<Rightarrow> nat \<Rightarrow> chat_interface \<Rightarrow> chat_interface" where
  "handleSendMessage isConnected isProcessing now c =
     (if trim (ci_inputText c) = [] \<or> \<not> isConnected \<or> isProcessing then c
      else c\<lparr>ci_messages := ci_messages c @
                 [\<lparr>cm_id = (now, []), cm_text = JString (ci_inputText c), cm_sender = sender_user,
                   cm_timestamp = now\<rparr>],
              ci_inputText := []\<rparr>)"

section \<open>AvatarSystem: the conversation\<close>

datatype role = user | assistant

record Message =
  msg_id :: nat
  msg_type :: role
  msg_text :: jsvalue
  msg_audio :: "url option"
  msg_timestamp :: nat

text \<open>
  \<open>as_running\<close> holds the blobs of the \<open>avatarService.processAudioInput\<close> calls made by
  the component whose promise has not settled yet, \<open>as_requests\<close> the requests of the
  settled ones, \<open>as_played\<close> the URLs given to \<open>new Audio(...).play()\<close>.
\<close>

record avatar_system =
  as_messages :: "Message list"
  as_isRecording :: bool
  as_isProcessing :: bool
  as_isSpeaking :: bool
  as_inputText :: jsstring
  as_currentAudioUrl :: "url option"
  as_error :: ui_text
  as_isConnected :: bool
  as_ws :: ws_hook
  as_running :: "blob list"
  as_requests :: "request list"
  as_played :: "url list"

text \<open>The state of \<open>AvatarSystem\<close> after mounting.\<close>

definition avatar_system_init :: avatar_system where
  "avatar_system_init =
     \<lparr>as_messages = [], as_isRecording = False, as_isProcessing = False,
      as_isSpeaking = False, as_inputText = [], as_currentAudioUrl = None, as_error = Empty,
      as_isConnected = False, as_ws = hook_init, as_running = [], as_requests = [],
      as_played = []\<rparr>"


text \<open>The synchronous part of \<open>playAudioResponse\<close>.\<close>

definition playAudioResponse :: "url \<Rightarrow> avatar_system \<Rightarrow> avatar_system" where
  "playAudioResponse u s =
     s\<lparr>as_isSpeaking := True, as_currentAudioUrl := Some u, as_played := as_played s @ [u]\<rparr>"

text \<open>
  The component's \<open>processAudioInput\<close> is an async function with one \<open>await\<close>: the part
  before it, which calls the service, and the part after it, which runs when the
  service's promise has settled.
\<close>

definition as_processAudioInput_call :: "blob \<Rightarrow> avatar_system \<Rightarrow> avatar_system" where
  "as_processAudioInput_call audioBlob s =
     s\<lparr>as_isProcessing := True, as_error := Empty, as_running := as_running s @ [audioBlob]\<rparr>"

definition as_processAudioInput_settled ::
  "nat \<Rightarrow> thrown + PipelineResult \<Rightarrow> avatar_system \<Rightarrow> avatar_system" where
  "as_processAudioInput_settled now outcome s =
     (case outcome of
        Inr result \<Rightarrow>
          (playAudioResponse (audioUrl result)
             (s\<lparr>as_messages := as_messages s @
                   [\<lparr>msg_id = now, msg_type = user, msg_text = JString (recognizedText result),
                     msg_audio = None, msg_timestamp = now\<rparr>,
                    \<lparr>msg_id = now + 1, msg_type = assistant, msg_text = aiResponse result,
                     msg_audio = Some (audioUrl result), msg_timestamp = now\<rparr>]\<rparr>))
            \<lparr>as_isProcessing := False\<rparr>
      | Inl e \<Rightarrow> s\<lparr>as_error := error_text e, as_isProcessing := False\<rparr>)"

text \<open>The whole call, when the services answer as \<open>env\<close> says and nothing else happens meanwhile.\<close>

definition as_processAudioInput :: "services \<Rightarrow> nat \<Rightarrow> blob \<Rightarrow> avatar_system \<Rightarrow> avatar_system" where
  "as_processAudioInput env now audioBlob s =
     (let s1 = as_processAudioInput_call audioBlob s;
          (reqs, outcome) = processAudioInput env audioBlob
      in as_processAudioInput_settled now outcome
           (s1\<lparr>as_running := butlast (as_running s1), as_requests := as_requests s1 @ reqs\<rparr>))"

definition handleSendText :: "nat \<Rightarrow> avatar_system \<Rightarrow> avatar_system" where
  "handleSendText now s =
     (if trim (as_inputText s) = [] \<or> \<not> as_isConnected s then s
      else s\<lparr>as_messages := as_messages s @
                 [\<lparr>msg_id = now, msg_type = user, msg_text = JString (as_inputText s),
                   msg_audio = None, msg_timestamp = now\<rparr>],
              as_inputText := [],
              as_isProcessing := True,
              as_ws := snd (sendMessage (UserMessageJson (as_inputText s)) (as_ws s))\<rparr>)"

section \<open>AvatarPage.tsx and VoiceRecorder\<close>

text \<open>
  The argument of \<open>handleAvatarResponse\<close>; \<open>recognizedText\<close> is optional, and reads as
  \<open>undefined\<close> when it is absent.
\<close>

record AvatarResponse =
  resp_text :: jsvalue
  resp_audioUrl :: url
  resp_recognizedText :: jsvalue

text \<open>
  The state of \<open>AvatarPage\<close> (\<open>ap_\<close>) and of the \<open>VoiceRecorder\<close> it renders (\<open>vr_\<close>), whose
  props \<open>isConnected\<close> and \<open>isProcessing\<close> are the page's state and whose
  \<open>onProcessingChange\<close> is the page's \<open>setIsProcessing\<close>.  \<open>vr_running\<close>, \<open>ap_requests\<close> and
  \<open>ap_played\<close> are as in \<open>avatar_system\<close>.  \<open>vr_stopTimers\<close> holds the 100 ms timers set
  by \<open>handleStopRecording\<close> that have not fired yet, each with the \<open>audioBlob\<close> and the
  \<open>isProcessing\<close> of the render in which Stop was pressed: the timer's callback and the
  \<open>handleSendAudio\<close> it calls are closures of that render and read these values, not the
  current ones.
\<close>

record avatar_page =
  ap_isConnected :: bool
  ap_isProcessing :: bool
  ap_audioUrl :: "url option"
  ap_isSpeaking :: bool
  ap_avatarResponse :: "AvatarResponse option"
  ap_messages :: "ChatMessage list"
  vr_isRecording :: bool
  vr_audioBlob :: "blob option"
  vr_error :: ui_text
  vr_progress :: ui_text
  vr_running :: "blob list"
  vr_stopTimers :: "(blob option \<times> bool) list"
  ap_requests :: "request list"
  ap_played :: "url list"

text \<open>The state after mounting, at time \<open>now\<close>, with the text of the greeting message.\<close>

definition page_init :: "jsstring \<Rightarrow> nat \<Rightarrow> avatar_page" where
  "page_init greeting now =
     \<lparr>ap_isConnected = False, ap_isProcessing = False, ap_audioUrl = None,
      ap_isSpeaking = False, ap_avatarResponse = None,
      ap_messages = [\<lparr>cm_id = (1, []), cm_text = JString greeting, cm_sender = sender_avatar,
                       cm_timestamp = now\<rparr>],
      vr_isRecording = False, vr_audioBlob = None, vr_error = Empty, vr_progress = Empty,
      vr_running = [], vr_stopTimers = [], ap_requests = [], ap_played = []\<rparr>"

definition handleConnect :: "avatar_page \<Rightarrow> avatar_page" where
  "handleConnect s = s\<lparr>ap_isConnected := True\<rparr>"

definition handleDisconnect :: "avatar_page \<Rightarrow> avatar_page" where
  "handleDisconnect s = s\<lparr>ap_isConnected := False\<rparr>"

definition handleAudioReady :: "blob \<Rightarrow> avatar_page \<Rightarrow> avatar_page" where
  "handleAudioReady b s =
     s\<lparr>ap_isProcessing := True, ap_isSpeaking := True, ap_audioUrl := Some (ObjectURL b)\<rparr>"

definition handleVideoReady :: "avatar_page \<Rightarrow> avatar_page" where
  "handleVideoReady s = s\<lparr>ap_isProcessing := False, ap_isSpeaking := False, ap_audioUrl := None\<rparr>"

text \<open>
  \<open>if (response.recognizedText)\<close> holds for a string that is present and not empty; the
  user message gets \<open>String(response.recognizedText)\<close>.
\<close>

definition handleAvatarResponse :: "nat \<Rightarrow> AvatarResponse \<Rightarrow> avatar_page \<Rightarrow> avatar_page" where
  "handleAvatarResponse now response s =
     (let s1 = s\<lparr>ap_avatarResponse := Some response, ap_isSpeaking := True\<rparr>;
          s2 = (if truthy (resp_recognizedText response)
                then s1\<lparr>ap_messages := ap_messages s1 @
                          [\<lparr>cm_id = (now, ''-user''),
                            cm_text = JString (to_string (resp_recognizedText response)),
                            cm_sender = sender_user, cm_timestamp = now\<rparr>,
                           \<lparr>cm_id = (now, ''-avatar''), cm_text = resp_text response,
                            cm_sender = sender_avatar, cm_timestamp = now\<rparr>]\<rparr>
                else s1)
      in s2\<lparr>ap_played := ap_played s2 @ [resp_audioUrl response]\<rparr>)"

text \<open>
  The \<open>onResponseReceived\<close> prop the page gives the recorder:
  \<open>(resp) => handleAvatarResponse({ ...resp, recognizedText: resp.text ?? "" })\<close>,
  where \<open>resp\<close> has the fields \<open>text\<close> and \<open>audioUrl\<close>.
\<close>

definition onResponseReceived :: "nat \<Rightarrow> jsvalue \<Rightarrow> url \<Rightarrow> avatar_page \<Rightarrow> avatar_page" where
  "onResponseReceived now txt u s =
     handleAvatarResponse now
       \<lparr>resp_text = txt, resp_audioUrl = u,
        resp_recognizedText = nullish_or txt (JString [])\<rparr> s"

text \<open>\<open>handleStartRecording\<close>; \<open>mic\<close> as in \<open>startRecording\<close>.\<close>

definition handleStartRecording :: "bool \<Rightarrow> avatar_page \<Rightarrow> avatar_page" where
  "handleStartRecording mic s =
     (if \<not> ap_isConnected s \<or> ap_isProcessing s then s
      else if mic then s\<lparr>vr_error := Empty, vr_progress := Empty, vr_isRecording := True\<rparr>
      else s\<lparr>vr_error := MicrophoneAccessError, vr_progress := Empty\<rparr>)"

text \<open>\<open>mediaRecorder.onstop\<close>, with the recorded blob.\<close>

definition mediaRecorder_onstop :: "blob \<Rightarrow> avatar_page \<Rightarrow> avatar_page" where
  "mediaRecorder_onstop b s = handleAudioReady b (s\<lparr>vr_audioBlob := Some b\<rparr>)"

text \<open>
  \<open>handleSendAudio\<close> is an async function with one \<open>await\<close>, split as the component's
  \<open>processAudioInput\<close> above.  Its guard and the blob it sends are the \<open>audioBlob\<close> and the
  \<open>isProcessing\<close> of the render that created the function, given here as arguments;
  everything it writes goes through state setters and lands in the current state.
\<close>

definition handleSendAudio_call :: "blob option \<Rightarrow> bool \<Rightarrow> avatar_page \<Rightarrow> avatar_page" where
  "handleSendAudio_call audioBlob isProcessing s =
     (case audioBlob of
        None \<Rightarrow> s
      | Some b \<Rightarrow>
          if isProcessing then s
          else s\<lparr>ap_isProcessing := True, vr_error := Empty, vr_progress := ProcessingAudio,
                  vr_running := vr_running s @ [b]\<rparr>)"

text \<open>
  \<open>handleStopRecording\<close> clears \<open>isRecording\<close>, stops the recorder (whose \<open>onstop\<close> comes
  later, as an event of its own) and sets the 100 ms timer.
\<close>

definition handleStopRecording :: "avatar_page \<Rightarrow> avatar_page" where
  "handleStopRecording s =
     s\<lparr>vr_isRecording := False,
       vr_stopTimers := vr_stopTimers s @ [(vr_audioBlob s, ap_isProcessing s)]\<rparr>"

text \<open>The timer's callback: \<open>if (audioBlob) handleSendAudio()\<close>, both of the render of the press.\<close>

definition stop_timer_callback :: "blob option \<times> bool \<Rightarrow> avatar_page \<Rightarrow> avatar_page" where
  "stop_timer_callback captured s =
     (case fst captured of
        None \<Rightarrow> s
      | Some b \<Rightarrow> handleSendAudio_call (fst captured) (snd captured) s)"

definition handleSendAudio_settled ::
  "nat \<Rightarrow> thrown + PipelineResult \<Rightarrow> avatar_page \<Rightarrow> avatar_page" where
  "handleSendAudio_settled now outcome s =
     (case outcome of
        Inr result \<Rightarrow>
          (let s1 = onResponseReceived now (aiResponse result) (audioUrl result)
                      (s\<lparr>vr_progress := Ready\<rparr>)
           in s1\<lparr>vr_audioBlob := None, ap_played := ap_played s1 @ [audioUrl result],
                  ap_isProcessing := False, vr_progress := Empty\<rparr>)
      | Inl e \<Rightarrow> s\<lparr>vr_error := error_text e, ap_isProcessing := False, vr_progress := Empty\<rparr>)"

text \<open>
  The events of the page.  The buttons: connect and disconnect; start recording (\<open>mic\<close>
  as above); stop recording, rendered only while \<open>isRecording\<close>; send and cancel, the
  latter disabled while \<open>isProcessing\<close>.  A button is pressed in the current render, so
  its handler reads the current state.  The others: the recorder's \<open>onstop\<close> with the
  recorded blob, the \<open>i\<close>-th pending stop timer firing, the avatar reporting its video
  ready, the \<open>i\<close>-th pipeline run in flight settling against the services \<open>env\<close> at time
  \<open>now\<close>.
\<close>

datatype page_event =
    PressConnect
  | PressDisconnect
  | StartRecording bool
  | StopRecording
  | Recorded blob
  | StopTimerFires nat
  | SendAudio
  | CancelAudio
  | VideoReady
  | Settles nat services nat

definition page_step :: "page_event \<Rightarrow> avatar_page \<Rightarrow> avatar_page" where
  "page_step ev s =
     (case ev of
        PressConnect \<Rightarrow> handleConnect s
      | PressDisconnect \<Rightarrow> handleDisconnect s
      | StartRecording mic \<Rightarrow> if vr_isRecording s then s else handleStartRecording mic s
      | StopRecording \<Rightarrow> if vr_isRecording s then handleStopRecording s else s
      | Recorded b \<Rightarrow> mediaRecorder_onstop b s
      | StopTimerFires i \<Rightarrow>
          if i < length (vr_stopTimers s) then
            stop_timer_callback (vr_stopTimers s ! i)
              (s\<lparr>vr_stopTimers := take i (vr_stopTimers s) @ drop (Suc i) (vr_stopTimers s)\<rparr>)
          else s
      | SendAudio \<Rightarrow> handleSendAudio_call (vr_audioBlob s) (ap_isProcessing s) s
      | CancelAudio \<Rightarrow>
          if ap_isProcessing s then s
          else s\<lparr>vr_audioBlob := None, vr_error := Empty, vr_progress := Empty\<rparr>
      | VideoReady \<Rightarrow> handleVideoReady s
      | Settles i env now \<Rightarrow>
          if i < length (vr_running s) then
            (let (reqs, outcome) = processAudioInput env (vr_running s ! i)
             in handleSendAudio_settled now outcome
                  (s\<lparr>vr_running := take i (vr_running s) @ drop (Suc i) (vr_running s),
                     ap_requests := ap_requests s @ reqs\<rparr>))
          else s)"


text \<open>
  The whole call of \<open>handleSendAudio\<close> from the send button, when nothing else happens
  before its run settles.
\<close>

definition handleSendAudio :: "services \<Rightarrow> nat \<Rightarrow> avatar_page \<Rightarrow> avatar_page" where
  "handleSendAudio env now s =
     page_step (Settles (length (vr_running s)) env now)
       (handleSendAudio_call (vr_audioBlob s) (ap_isProcessing s) s)"


section \<open>Whitespace and trimming\<close>

lemma trim_of_ascii_blank: "trim (of_ascii ''  '') = []"
  by (simp add: trim_def of_ascii_def isWhiteSpace_def)

lemma trim_of_ascii_padded: "trim (of_ascii '' hi '') = of_ascii ''hi''"
  by (simp add: trim_def of_ascii_def isWhiteSpace_def)

text \<open>\<open>!s.trim()\<close> holds exactly for the strings made of white space only, the empty one included.\<close>

lemma trim_empty_iff: "trim s = [] \<longleftrightarrow> list_all isWhiteSpace s"
proof -
  have "trim s = [] \<longleftrightarrow> (\<forall>c \<in> set (dropWhile isWhiteSpace s). isWhiteSpace c)"
    by (simp add: trim_def)
  also have "\<dots> \<longleftrightarrow> dropWhile isWhiteSpace s = []"
  proof
    assume all: "\<forall>c \<in> set (dropWhile isWhiteSpace s). isWhiteSpace c"
    show "dropWhile isWhiteSpace s = []"
    proof (rule ccontr)
      assume ne: "dropWhile isWhiteSpace s \<noteq> []"
      then have "\<not> isWhiteSpace (hd (dropWhile isWhiteSpace s))"
        by (rule hd_dropWhile)
      moreover have "hd (dropWhile isWhiteSpace s) \<in> set (dropWhile isWhiteSpace s)"
        using ne by simp
      ultimately show False using all by blast
    qed
  qed (auto dest: set_dropWhileD)
  also have "\<dots> \<longleftrightarrow> list_all isWhiteSpace s"
    by (simp add: list_all_iff)
  finally show ?thesis .
qed

section \<open>Sending text\<close>

text \<open>
  C10.  A text send whose input is empty or white space only does nothing, in
  \<open>ChatInterface.handleSendMessage\<close> and in \<open>AvatarSystem.handleSendText\<close> alike: the state
  after it is the state before it, so no message is appended, no frame is handed to the
  socket (the frames sent are part of \<open>as_ws\<close>) and nothing else changes.
\<close>

theorem blank_text_is_not_sent:
  "(list_all isWhiteSpace (ci_inputText c) \<longrightarrow>
      handleSendMessage isConnected isProcessing now c = c)
   \<and> (list_all isWhiteSpace (as_inputText s) \<longrightarrow> handleSendText now s = s)"
  by (simp add: handleSendMessage_def handleSendText_def trim_empty_iff)

theorem blank_text_is_not_sent_witness:
  "list_all isWhiteSpace (ci_inputText \<lparr>ci_messages = [], ci_inputText = of_ascii '' ''\<rparr>)
   \<and> handleSendMessage True False 7 \<lparr>ci_messages = [], ci_inputText = of_ascii '' ''\<rparr>
       = \<lparr>ci_messages = [], ci_inputText = of_ascii '' ''\<rparr>
   \<and> list_all isWhiteSpace
       (as_inputText (avatar_system_init\<lparr>as_inputText := [0x20, 0x9], as_isConnected := True\<rparr>))
   \<and> handleSendText 7 (avatar_system_init\<lparr>as_inputText := [0x20, 0x9], as_isConnected := True\<rparr>)
       = avatar_system_init\<lparr>as_inputText := [0x20, 0x9], as_isConnected := True\<rparr>"
  using blank_text_is_not_sent
    [of "\<lparr>ci_messages = [], ci_inputText = of_ascii '' ''\<rparr>" True False 7
        "avatar_system_init\<lparr>as_inputText := [0x20, 0x9], as_isConnected := True\<rparr>"]
  by (simp add: of_ascii_def isWhiteSpace_def)

section \<open>The pipeline of avatarService\<close>

lemma processAudioInput_blank:
  assumes "recognize_speech env = Response st (Inr (Obj r))" and "ok st"
    and "sr_text r = JString heard" and "list_all isWhiteSpace heard"
  shows "processAudioInput env b = ([PostRecognizeSpeech b], Inl (ErrorObj SpeechNotRecognized))"
  using assms by (simp add: processAudioInput_def recognizeSpeech_def trim_empty_iff)

text \<open>
  C4.  When the recognition request succeeds with a text that is empty or white space
  only, the run ends with the error "could not recognise the speech" after that one
  request: no chat request is made.  Neither caller of the service appends a message:
  \<open>AvatarSystem.processAudioInput\<close> and \<open>VoiceRecorder.handleSendAudio\<close> both show the
  error's message and leave the history as it was.
\<close>

theorem blank_recognition_ends_the_run:
  assumes "recognize_speech env = Response st (Inr (Obj r))" and "ok st"
    and "sr_text r = JString heard" and "list_all isWhiteSpace heard"
  shows "processAudioInput env b = ([PostRecognizeSpeech b], Inl (ErrorObj SpeechNotRecognized))
    \<and> as_messages (as_processAudioInput env now b s) = as_messages s
    \<and> as_requests (as_processAudioInput env now b s) = as_requests s @ [PostRecognizeSpeech b]
    \<and> as_error (as_processAudioInput env now b s) = MessageOf SpeechNotRecognized
    \<and> ap_messages (handleSendAudio env now p) = ap_messages p
    \<and> (vr_audioBlob p = Some b \<and> \<not> ap_isProcessing p \<longrightarrow>
         ap_requests (handleSendAudio env now p) = ap_requests p @ [PostRecognizeSpeech b]
         \<and> vr_error (handleSendAudio env now p) = MessageOf SpeechNotRecognized)"
proof -
  have run: "\<And>b. processAudioInput env b
      = ([PostRecognizeSpeech b], Inl (ErrorObj SpeechNotRecognized))"
    using assms by (rule processAudioInput_blank)
  have sys: "as_processAudioInput env now b s
      = s\<lparr>as_isProcessing := False, as_error := MessageOf SpeechNotRecognized,
           as_requests := as_requests s @ [PostRecognizeSpeech b]\<rparr>"
    by (simp add: as_processAudioInput_def as_processAudioInput_call_def
        as_processAudioInput_settled_def run error_text_def)
  have page: "ap_messages (handleSendAudio env now p) = ap_messages p"
    by (cases "vr_audioBlob p")
      (simp_all add: handleSendAudio_def handleSendAudio_call_def page_step_def
        handleSendAudio_settled_def run error_text_def)
  have started: "ap_requests (handleSendAudio env now p) = ap_requests p @ [PostRecognizeSpeech b]
      \<and> vr_error (handleSendAudio env now p) = MessageOf SpeechNotRecognized"
    if "vr_audioBlob p = Some b" and "\<not> ap_isProcessing p"
    using that
    by (simp add: handleSendAudio_def handleSendAudio_call_def page_step_def
        handleSendAudio_settled_def run error_text_def)
  show ?thesis using run sys page started by simp
qed

theorem blank_recognition_ends_the_run_witness:
  "recognize_speech (services_up (of_ascii ''  '') (of_ascii ''hi''))
     = Response 200 (Inr (Obj \<lparr>sr_text = JString (of_ascii ''  ''), confidence = 1\<rparr>))
   \<and> ok 200
   \<and> sr_text \<lparr>sr_text = JString (of_ascii ''  ''), confidence = 1\<rparr> = JString (of_ascii ''  '')
   \<and> list_all isWhiteSpace (of_ascii ''  '')
   \<and> vr_audioBlob ((page_init [] 0)\<lparr>vr_audioBlob := Some (Blob [1])\<rparr>) = Some (Blob [1])
   \<and> \<not> ap_isProcessing ((page_init [] 0)\<lparr>vr_audioBlob := Some (Blob [1])\<rparr>)
   \<and> processAudioInput (services_up (of_ascii ''  '') (of_ascii ''hi'')) (Blob [1])
       = ([PostRecognizeSpeech (Blob [1])], Inl (ErrorObj SpeechNotRecognized))
   \<and> ap_requests (handleSendAudio (services_up (of_ascii ''  '') (of_ascii ''hi'')) 5
        ((page_init [] 0)\<lparr>vr_audioBlob := Some (Blob [1])\<rparr>)) = [PostRecognizeSpeech (Blob [1])]
   \<and> ap_messages (handleSendAudio (services_up (of_ascii ''  '') (of_ascii ''hi'')) 5
        ((page_init [] 0)\<lparr>vr_audioBlob := Some (Blob [1])\<rparr>)) = ap_messages (page_init [] 0)
   \<and> as_messages (as_processAudioInput (services_up (of_ascii ''  '') (of_ascii ''hi'')) 5
        (Blob [1]) avatar_system_init) = []"
  using blank_recognition_ends_the_run
    [of "services_up (of_ascii ''  '') (of_ascii ''hi'')" 200
        "\<lparr>sr_text = JString (of_ascii ''  ''), confidence = 1\<rparr>" "of_ascii ''  ''"
        "Blob [1]" 5 avatar_system_init "(page_init [] 0)\<lparr>vr_audioBlob := Some (Blob [1])\<rparr>"]
  by (simp add: services_up_def ok_def of_ascii_def isWhiteSpace_def page_init_def
      avatar_system_init_def)

lemma synthesizeSpeech_first: "hd (fst (synthesizeSpeech env v)) = PostSynthesize v"
  by (simp add: synthesizeSpeech_def split: fetched.splits sum.splits json.splits)

text \<open>
  C5, as the code has it.  A stage whose promise rejects ends the run with what it
  rejected with, and the requests of the run stop at that stage: recognition alone, then
  recognition and chat, then those and the requests of the synthesis.  A response that is
  not \<open>ok\<close> makes each of the three POST stages reject with an \<open>Error\<close> whose message
  names the stage and the status, and the audio download with the \<open>Error\<close> "error
  getting the audio file"; a rejected \<open>fetch\<close> is passed on as it is.  Bodies are not
  validated.  A recognition body that is \<open>null\<close> or whose \<open>text\<close> is not a string ends the
  run with the engine's \<open>TypeError\<close> after the recognition request alone, and a chat body
  that is \<open>null\<close> ends it so after the chat request; any other chat body, whatever its
  shape, does not fail the stage, and synthesis is requested with its \<open>text\<close> property
  as it is.
\<close>

theorem stage_failure_stops_the_run:
  "(snd (recognizeSpeech env1 b1) = Inl e1 \<longrightarrow>
      processAudioInput env1 b1 = ([PostRecognizeSpeech b1], Inl e1))
   \<and> (snd (recognizeSpeech env2 b2) = Inr (Obj r2) \<and> sr_text r2 = JString t2
        \<and> \<not> list_all isWhiteSpace t2
        \<and> snd (getAIResponse env2 t2 None) = Inl e2 \<longrightarrow>
      processAudioInput env2 b2 = ([PostRecognizeSpeech b2, PostChat t2 DefaultContext], Inl e2))
   \<and> (snd (recognizeSpeech env3 b3) = Inr (Obj r3) \<and> sr_text r3 = JString t3
        \<and> \<not> list_all isWhiteSpace t3
        \<and> snd (getAIResponse env3 t3 None) = Inr (Obj a3)
        \<and> snd (synthesizeSpeech env3 (ai_text a3)) = Inl e3 \<longrightarrow>
      processAudioInput env3 b3
        = ([PostRecognizeSpeech b3, PostChat t3 DefaultContext]
             @ fst (synthesizeSpeech env3 (ai_text a3)), Inl e3))
   \<and> (\<not> ok st \<longrightarrow>
        snd (recognizeSpeech (env\<lparr>recognize_speech := Response st body1\<rparr>) b)
          = Inl (ErrorObj (SpeechRecognitionStatus st))
        \<and> snd (getAIResponse (env\<lparr>chat := Response st body2\<rparr>) t c)
          = Inl (ErrorObj (AIResponseStatus st))
        \<and> synthesizeSpeech (env\<lparr>synthesize := Response st body3\<rparr>) v
          = ([PostSynthesize v], Inl (ErrorObj (SpeechSynthesisStatus st)))
        \<and> synthesizeSpeech
            (env\<lparr>synthesize := Response 200 (Inr (Obj y)), audio := Response st body4\<rparr>) v
          = ([PostSynthesize v, GetAudio (to_string (audio_id y))],
             Inl (ErrorObj AudioFileFailed)))
   \<and> snd (recognizeSpeech (env\<lparr>recognize_speech := Rejected x\<rparr>) b) = Inl x
   \<and> snd (getAIResponse (env\<lparr>chat := Rejected x\<rparr>) t c) = Inl x
   \<and> synthesizeSpeech (env\<lparr>synthesize := Rejected x\<rparr>) v = ([PostSynthesize v], Inl x)
   \<and> (snd (recognizeSpeech env4 b4) = Inr j4 \<and> (\<forall>r h. j4 = Obj r \<longrightarrow> sr_text r \<noteq> JString h) \<longrightarrow>
      processAudioInput env4 b4 = ([PostRecognizeSpeech b4], Inl (ErrorObj EngineTypeError)))
   \<and> (snd (recognizeSpeech env5 b5) = Inr (Obj r5) \<and> sr_text r5 = JString t5
        \<and> \<not> list_all isWhiteSpace t5
        \<and> snd (getAIResponse env5 t5 None) = Inr (Obj a5) \<longrightarrow>
      fst (processAudioInput env5 b5)
        = [PostRecognizeSpeech b5, PostChat t5 DefaultContext]
            @ fst (synthesizeSpeech env5 (ai_text a5))
      \<and> hd (fst (synthesizeSpeech env5 (ai_text a5))) = PostSynthesize (ai_text a5))
   \<and> (snd (recognizeSpeech env6 b6) = Inr (Obj r6) \<and> sr_text r6 = JString t6
        \<and> \<not> list_all isWhiteSpace t6
        \<and> snd (getAIResponse env6 t6 None) = Inr NullBody \<longrightarrow>
      processAudioInput env6 b6
        = ([PostRecognizeSpeech b6, PostChat t6 DefaultContext], Inl (ErrorObj EngineTypeError)))"
proof -
  have one: "processAudioInput env1 b1 = ([PostRecognizeSpeech b1], Inl e1)"
    if "snd (recognizeSpeech env1 b1) = Inl e1"
    using that by (simp add: processAudioInput_def recognizeSpeech_def split: prod.splits)
  have two: "processAudioInput env2 b2
        = ([PostRecognizeSpeech b2, PostChat t2 DefaultContext], Inl e2)"
    if "snd (recognizeSpeech env2 b2) = Inr (Obj r2)" and "sr_text r2 = JString t2"
      and "\<not> list_all isWhiteSpace t2" and "snd (getAIResponse env2 t2 None) = Inl e2"
    using that
    by (simp add: processAudioInput_def recognizeSpeech_def getAIResponse_def trim_empty_iff
        split: prod.splits)
  have three: "processAudioInput env3 b3
        = ([PostRecognizeSpeech b3, PostChat t3 DefaultContext]
             @ fst (synthesizeSpeech env3 (ai_text a3)), Inl e3)"
    if h3: "snd (recognizeSpeech env3 b3) = Inr (Obj r3)" "sr_text r3 = JString t3"
      "\<not> list_all isWhiteSpace t3" "snd (getAIResponse env3 t3 None) = Inr (Obj a3)"
      "snd (synthesizeSpeech env3 (ai_text a3)) = Inl e3"
  proof -
    obtain c3 where c3: "synthesizeSpeech env3 (ai_text a3) = (c3, Inl e3)"
      using h3(5) by (cases "synthesizeSpeech env3 (ai_text a3)") simp
    show ?thesis
      using h3(1-4) c3
      by (simp add: processAudioInput_def recognizeSpeech_def getAIResponse_def trim_empty_iff)
  qed
  have tagged: "snd (recognizeSpeech (env\<lparr>recognize_speech := Response st body1\<rparr>) b)
          = Inl (ErrorObj (SpeechRecognitionStatus st))
        \<and> snd (getAIResponse (env\<lparr>chat := Response st body2\<rparr>) t c)
          = Inl (ErrorObj (AIResponseStatus st))
        \<and> synthesizeSpeech (env\<lparr>synthesize := Response st body3\<rparr>) v
          = ([PostSynthesize v], Inl (ErrorObj (SpeechSynthesisStatus st)))
        \<and> synthesizeSpeech
            (env\<lparr>synthesize := Response 200 (Inr (Obj y)), audio := Response st body4\<rparr>) v
          = ([PostSynthesize v, GetAudio (to_string (audio_id y))],
             Inl (ErrorObj AudioFileFailed))"
    if "\<not> ok st"
    using that by (simp add: recognizeSpeech_def getAIResponse_def synthesizeSpeech_def ok_def)
  have passed: "snd (recognizeSpeech (env\<lparr>recognize_speech := Rejected x\<rparr>) b) = Inl x
      \<and> snd (getAIResponse (env\<lparr>chat := Rejected x\<rparr>) t c) = Inl x
      \<and> synthesizeSpeech (env\<lparr>synthesize := Rejected x\<rparr>) v = ([PostSynthesize v], Inl x)"
    by (simp add: recognizeSpeech_def getAIResponse_def synthesizeSpeech_def)
  have four: "processAudioInput env4 b4 = ([PostRecognizeSpeech b4], Inl (ErrorObj EngineTypeError))"
    if "snd (recognizeSpeech env4 b4) = Inr j4" and "\<forall>r h. j4 = Obj r \<longrightarrow> sr_text r \<noteq> JString h"
    using that
    by (cases j4)
      (auto simp: processAudioInput_def recognizeSpeech_def split: prod.splits jsvalue.splits)
  have five: "fst (processAudioInput env5 b5)
        = [PostRecognizeSpeech b5, PostChat t5 DefaultContext]
            @ fst (synthesizeSpeech env5 (ai_text a5))
      \<and> hd (fst (synthesizeSpeech env5 (ai_text a5))) = PostSynthesize (ai_text a5)"
    if "snd (recognizeSpeech env5 b5) = Inr (Obj r5)" and "sr_text r5 = JString t5"
      and "\<not> list_all isWhiteSpace t5" and "snd (getAIResponse env5 t5 None) = Inr (Obj a5)"
  proof
    show "fst (processAudioInput env5 b5)
        = [PostRecognizeSpeech b5, PostChat t5 DefaultContext]
            @ fst (synthesizeSpeech env5 (ai_text a5))"
      using that
      by (cases "synthesizeSpeech env5 (ai_text a5)";
          cases "snd (synthesizeSpeech env5 (ai_text a5))")
        (simp_all add: processAudioInput_def recognizeSpeech_def getAIResponse_def
          trim_empty_iff)
    show "hd (fst (synthesizeSpeech env5 (ai_text a5))) = PostSynthesize (ai_text a5)"
      by (rule synthesizeSpeech_first)
  qed
  have six: "processAudioInput env6 b6
        = ([PostRecognizeSpeech b6, PostChat t6 DefaultContext], Inl (ErrorObj EngineTypeError))"
    if "snd (recognizeSpeech env6 b6) = Inr (Obj r6)" and "sr_text r6 = JString t6"
      and "\<not> list_all isWhiteSpace t6" and "snd (getAIResponse env6 t6 None) = Inr NullBody"
    using that
    by (simp add: processAudioInput_def recognizeSpeech_def getAIResponse_def trim_empty_iff
        split: prod.splits)
  show ?thesis
    apply (intro conjI impI)
    using one two three tagged passed four five six by blast+
qed

theorem stage_failure_stops_the_run_witness:
  "snd (recognizeSpeech
          ((services_up (of_ascii ''hello'') (of_ascii ''hi''))
             \<lparr>recognize_speech := Rejected (ErrorObj (Runtime (of_ascii ''Failed to fetch'')))\<rparr>)
          (Blob [1]))
     = Inl (ErrorObj (Runtime (of_ascii ''Failed to fetch'')))
   \<and> processAudioInput
         ((services_up (of_ascii ''hello'') (of_ascii ''hi''))
            \<lparr>recognize_speech := Rejected (ErrorObj (Runtime (of_ascii ''Failed to fetch'')))\<rparr>)
         (Blob [1])
     = ([PostRecognizeSpeech (Blob [1])], Inl (ErrorObj (Runtime (of_ascii ''Failed to fetch''))))
   \<and> snd (recognizeSpeech
          ((services_up (of_ascii ''hello'') (of_ascii ''hi''))\<lparr>chat := Response 500 (Inl NonError)\<rparr>)
          (Blob [1]))
     = Inr (Obj \<lparr>sr_text = JString (of_ascii ''hello''), confidence = 1\<rparr>)
   \<and> \<not> list_all isWhiteSpace (of_ascii ''hello'')
   \<and> snd (getAIResponse
          ((services_up (of_ascii ''hello'') (of_ascii ''hi''))\<lparr>chat := Response 500 (Inl NonError)\<rparr>)
          (of_ascii ''hello'') None)
     = Inl (ErrorObj (AIResponseStatus 500))
   \<and> processAudioInput
         ((services_up (of_ascii ''hello'') (of_ascii ''hi''))\<lparr>chat := Response 500 (Inl NonError)\<rparr>)
         (Blob [1])
     = ([PostRecognizeSpeech (Blob [1]), PostChat (of_ascii ''hello'') DefaultContext],
        Inl (ErrorObj (AIResponseStatus 500)))
   \<and> snd (getAIResponse
          ((services_up (of_ascii ''hello'') (of_ascii ''hi''))\<lparr>audio := Response 404 (Inl NonError)\<rparr>)
          (of_ascii ''hello'') None)
     = Inr (Obj \<lparr>ai_text = JString (of_ascii ''hi''), emotion = None\<rparr>)
   \<and> snd (synthesizeSpeech
          ((services_up (of_ascii ''hello'') (of_ascii ''hi''))\<lparr>audio := Response 404 (Inl NonError)\<rparr>)
          (JString (of_ascii ''hi'')))
     = Inl (ErrorObj AudioFileFailed)
   \<and> processAudioInput
         ((services_up (of_ascii ''hello'') (of_ascii ''hi''))\<lparr>audio := Response 404 (Inl NonError)\<rparr>)
         (Blob [1])
     = ([PostRecognizeSpeech (Blob [1]), PostChat (of_ascii ''hello'') DefaultContext,
         PostSynthesize (JString (of_ascii ''hi'')), GetAudio (of_ascii ''a1'')],
        Inl (ErrorObj AudioFileFailed))
   \<and> \<not> ok 503
   \<and> snd (recognizeSpeech
          ((services_up (of_ascii ''hello'') (of_ascii ''hi''))
             \<lparr>recognize_speech := Response 503 (Inl NonError)\<rparr>) (Blob [1]))
     = Inl (ErrorObj (SpeechRecognitionStatus 503))
   \<and> snd (recognizeSpeech
          ((services_up (of_ascii ''hello'') (of_ascii ''hi''))
             \<lparr>recognize_speech :=
                Response 200 (Inr (Obj \<lparr>sr_text = JUndefined, confidence = 1\<rparr>))\<rparr>) (Blob [1]))
     = Inr (Obj \<lparr>sr_text = JUndefined, confidence = 1\<rparr>)
   \<and> processAudioInput
         ((services_up (of_ascii ''hello'') (of_ascii ''hi''))
            \<lparr>recognize_speech :=
               Response 200 (Inr (Obj \<lparr>sr_text = JUndefined, confidence = 1\<rparr>))\<rparr>) (Blob [1])
     = ([PostRecognizeSpeech (Blob [1])], Inl (ErrorObj EngineTypeError))
   \<and> snd (getAIResponse
          ((services_up (of_ascii ''hello'') (of_ascii ''hi''))
             \<lparr>chat := Response 200 (Inr (Obj \<lparr>ai_text = JUndefined, emotion = None\<rparr>))\<rparr>)
          (of_ascii ''hello'') None)
     = Inr (Obj \<lparr>ai_text = JUndefined, emotion = None\<rparr>)
   \<and> fst (processAudioInput
          ((services_up (of_ascii ''hello'') (of_ascii ''hi''))
             \<lparr>chat := Response 200 (Inr (Obj \<lparr>ai_text = JUndefined, emotion = None\<rparr>))\<rparr>)
          (Blob [1]))
     = [PostRecognizeSpeech (Blob [1]), PostChat (of_ascii ''hello'') DefaultContext,
        PostSynthesize JUndefined, GetAudio (of_ascii ''a1'')]
   \<and> snd (getAIResponse
          ((services_up (of_ascii ''hello'') (of_ascii ''hi''))\<lparr>chat := Response 200 (Inr NullBody)\<rparr>)
          (of_ascii ''hello'') None)
     = Inr NullBody
   \<and> processAudioInput
         ((services_up (of_ascii ''hello'') (of_ascii ''hi''))\<lparr>chat := Response 200 (Inr NullBody)\<rparr>)
         (Blob [1])
     = ([PostRecognizeSpeech (Blob [1]), PostChat (of_ascii ''hello'') DefaultContext],
        Inl (ErrorObj EngineTypeError))"
  using stage_failure_stops_the_run
    [where ?env1.0 = "(services_up (of_ascii ''hello'') (of_ascii ''hi''))
             \<lparr>recognize_speech := Rejected (ErrorObj (Runtime (of_ascii ''Failed to fetch'')))\<rparr>"
       and ?b1.0 = "Blob [1]" and ?e1.0 = "ErrorObj (Runtime (of_ascii ''Failed to fetch''))"
       and ?env2.0 = "(services_up (of_ascii ''hello'') (of_ascii ''hi''))
             \<lparr>chat := Response 500 (Inl NonError)\<rparr>"
       and ?b2.0 = "Blob [1]"
       and ?r2.0 = "\<lparr>sr_text = JString (of_ascii ''hello''), confidence = 1\<rparr>"
       and ?t2.0 = "of_ascii ''hello''" and ?e2.0 = "ErrorObj (AIResponseStatus 500)"
       and ?env3.0 = "(services_up (of_ascii ''hello'') (of_ascii ''hi''))
             \<lparr>audio := Response 404 (Inl NonError)\<rparr>"
       and ?b3.0 = "Blob [1]"
       and ?r3.0 = "\<lparr>sr_text = JString (of_ascii ''hello''), confidence = 1\<rparr>"
       and ?t3.0 = "of_ascii ''hello''"
       and ?a3.0 = "\<lparr>ai_text = JString (of_ascii ''hi''), emotion = None\<rparr>"
       and ?e3.0 = "ErrorObj AudioFileFailed"
       and st = 503 and env = "services_up (of_ascii ''hello'') (of_ascii ''hi'')"
       and ?body1.0 = "Inl NonError" and ?body2.0 = "Inl NonError" and ?body3.0 = "Inl NonError"
       and ?body4.0 = "Inl NonError"
       and b = "Blob [1]" and t = "of_ascii ''hi''" and c = None
       and v = "JString (of_ascii ''hi'')"
       and y = "\<lparr>audio_id = JString (of_ascii ''a1''), result_duration = None\<rparr>"
       and x = "ErrorObj (Runtime (of_ascii ''Failed to fetch''))"
       and ?env4.0 = "(services_up (of_ascii ''hello'') (of_ascii ''hi''))
             \<lparr>recognize_speech :=
                Response 200 (Inr (Obj \<lparr>sr_text = JUndefined, confidence = 1\<rparr>))\<rparr>"
       and ?b4.0 = "Blob [1]" and ?j4.0 = "Obj \<lparr>sr_text = JUndefined, confidence = 1\<rparr>"
       and ?env5.0 = "(services_up (of_ascii ''hello'') (of_ascii ''hi''))
             \<lparr>chat := Response 200 (Inr (Obj \<lparr>ai_text = JUndefined, emotion = None\<rparr>))\<rparr>"
       and ?b5.0 = "Blob [1]"
       and ?r5.0 = "\<lparr>sr_text = JString (of_ascii ''hello''), confidence = 1\<rparr>"
       and ?t5.0 = "of_ascii ''hello''" and ?a5.0 = "\<lparr>ai_text = JUndefined, emotion = None\<rparr>"
       and ?env6.0 = "(services_up (of_ascii ''hello'') (of_ascii ''hi''))
             \<lparr>chat := Response 200 (Inr NullBody)\<rparr>"
       and ?b6.0 = "Blob [1]"
       and ?r6.0 = "\<lparr>sr_text = JString (of_ascii ''hello''), confidence = 1\<rparr>"
       and ?t6.0 = "of_ascii ''hello''"]
  by (simp add: services_up_def recognizeSpeech_def getAIResponse_def synthesizeSpeech_def
      ok_def of_ascii_def isWhiteSpace_def to_string_def)

text \<open>
  The sentence of the specification fails for a malformed payload.  A chat response with
  status 200 and the body \<open>{}\<close> does not end the run: the synthesis request and the audio
  download are still made, and the run completes with an undefined reply.  Nor is the
  error of a malformed payload tagged with its stage: a recognition body \<open>{}\<close> and a chat
  body \<open>null\<close> end their runs with the same \<open>TypeError\<close>, the first after one request and
  the second after two.
\<close>

theorem malformed_payload_counterexample:
  "processAudioInput
     ((services_up (of_ascii ''hello'') (of_ascii ''hi''))
        \<lparr>chat := Response 200 (Inr (Obj \<lparr>ai_text = JUndefined, emotion = None\<rparr>))\<rparr>)
     (Blob [1])
   = ([PostRecognizeSpeech (Blob [1]), PostChat (of_ascii ''hello'') DefaultContext,
       PostSynthesize JUndefined, GetAudio (of_ascii ''a1'')],
      Inr \<lparr>recognizedText = of_ascii ''hello'', aiResponse = JUndefined,
           audioUrl = ObjectURL (Blob [7])\<rparr>)
   \<and> processAudioInput
       ((services_up (of_ascii ''hello'') (of_ascii ''hi''))
          \<lparr>recognize_speech :=
             Response 200 (Inr (Obj \<lparr>sr_text = JUndefined, confidence = 1\<rparr>))\<rparr>)
       (Blob [1])
     = ([PostRecognizeSpeech (Blob [1])], Inl (ErrorObj EngineTypeError))
   \<and> processAudioInput
       ((services_up (of_ascii ''hello'') (of_ascii ''hi''))\<lparr>chat := Response 200 (Inr NullBody)\<rparr>)
       (Blob [1])
     = ([PostRecognizeSpeech (Blob [1]), PostChat (of_ascii ''hello'') DefaultContext],
        Inl (ErrorObj EngineTypeError))"
  by (simp add: services_up_def processAudioInput_def recognizeSpeech_def getAIResponse_def
      synthesizeSpeech_def ok_def trim_def of_ascii_def isWhiteSpace_def to_string_def)

section \<open>A completed run and the history\<close>

text \<open>
  When every request succeeds with a body of the declared shape and the recognised text
  is not blank, the run makes its four requests in order and resolves to the recognised
  text, the reply and the URL of the synthesised audio.
\<close>

lemma processAudioInput_success:
  assumes "recognize_speech env = Response st1 (Inr (Obj r))" and "ok st1"
    and "sr_text r = JString heard" and "\<not> list_all isWhiteSpace heard"
    and "chat env = Response st2 (Inr (Obj a))" and "ok st2"
    and "synthesize env = Response st3 (Inr (Obj y))" and "ok st3"
    and "audio env = Response st4 (Inr ab)" and "ok st4"
  shows "processAudioInput env b
    = ([PostRecognizeSpeech b, PostChat heard DefaultContext, PostSynthesize (ai_text a),
        GetAudio (to_string (audio_id y))],
       Inr \<lparr>recognizedText = heard, aiResponse = ai_text a, audioUrl = ObjectURL ab\<rparr>)"
  using assms
  by (simp add: processAudioInput_def recognizeSpeech_def getAIResponse_def synthesizeSpeech_def
      trim_empty_iff)

text \<open>
  \<open>AvatarSystem.processAudioInput\<close> then appends the user message with the recognised text
  and after it the assistant message with the reply and the audio.
\<close>

lemma as_processAudioInput_appends_turn:
  assumes "snd (processAudioInput env b) = Inr result"
  shows "as_messages (as_processAudioInput env now b s)
    = as_messages s @
        [\<lparr>msg_id = now, msg_type = user, msg_text = JString (recognizedText result),
          msg_audio = None, msg_timestamp = now\<rparr>,
         \<lparr>msg_id = now + 1, msg_type = assistant, msg_text = aiResponse result,
          msg_audio = Some (audioUrl result), msg_timestamp = now\<rparr>]"
  using assms
  by (cases "processAudioInput env b")
    (simp add: as_processAudioInput_def as_processAudioInput_call_def
      as_processAudioInput_settled_def playAudioResponse_def)

text \<open>
  C3.  The other caller, \<open>VoiceRecorder.handleSendAudio\<close> with \<open>AvatarPage\<close>, does not:
  the recorder hands up the reply and the audio URL only, and the page takes the reply
  for the recognised text.  With "hello" recognised and "hi there" replied, both appended
  messages read "hi there"; with an empty reply, no message is appended at all.
\<close>

theorem recorder_turn_loses_recognized_text:
  "snd (processAudioInput (services_up (of_ascii ''hello'') (of_ascii ''hi there'')) (Blob [1]))
     = Inr \<lparr>recognizedText = of_ascii ''hello'', aiResponse = JString (of_ascii ''hi there''),
            audioUrl = ObjectURL (Blob [7])\<rparr>
   \<and> ap_messages (handleSendAudio (services_up (of_ascii ''hello'') (of_ascii ''hi there'')) 5
        ((page_init [] 0)\<lparr>ap_isConnected := True, vr_audioBlob := Some (Blob [1])\<rparr>))
     = ap_messages (page_init [] 0) @
        [\<lparr>cm_id = (5, ''-user''), cm_text = JString (of_ascii ''hi there''),
          cm_sender = sender_user, cm_timestamp = 5\<rparr>,
         \<lparr>cm_id = (5, ''-avatar''), cm_text = JString (of_ascii ''hi there''),
          cm_sender = sender_avatar, cm_timestamp = 5\<rparr>]
   \<and> ap_messages (handleSendAudio (services_up (of_ascii ''hello'') []) 5
        ((page_init [] 0)\<lparr>ap_isConnected := True, vr_audioBlob := Some (Blob [1])\<rparr>))
     = ap_messages (page_init [] 0)"
  by (simp add: services_up_def processAudioInput_def recognizeSpeech_def getAIResponse_def
      synthesizeSpeech_def ok_def trim_def of_ascii_def isWhiteSpace_def page_init_def
      handleSendAudio_def handleSendAudio_call_def page_step_def handleSendAudio_settled_def
      onResponseReceived_def handleAvatarResponse_def truthy_def to_string_def nullish_or_def)

section \<open>Overlapping sends\<close>







section \<open>The connection and the pipeline\<close>





section \<open>Reconnecting\<close>

text \<open>
  \<open>ws.onclose\<close> is the only place that sets a reconnect timer, and it counts each one in
  \<open>reconnectAttemptsRef\<close>; nothing but \<open>ws.onopen\<close> and \<open>disconnect\<close> lowers the counter.
\<close>

lemma connect_counters:
  "reconnectAttemptsRef (connect opts h) = reconnectAttemptsRef h
   \<and> nextTimer (connect opts h) = nextTimer h"
  by (simp add: connect_def)

lemma hook_step_attempts:
  assumes "no_open ev" and "reconnectAttemptsRef h \<le> maxReconnectAttempts opts"
  shows "reconnectAttemptsRef (hook_step opts ev h) \<le> maxReconnectAttempts opts
    \<and> nextTimer (hook_step opts ev h) + reconnectAttemptsRef h
        = nextTimer h + reconnectAttemptsRef (hook_step opts ev h)"
  using assms
  by (cases ev)
    (simp_all add: hook_step_def no_open_def connect_counters sendMessage_def ws_onmessage_def
      ws_onclose_def ws_onerror_def split: option.splits)

lemma hook_run_attempts:
  assumes "\<forall>ev \<in> set evs. no_open ev" and "reconnectAttemptsRef h \<le> maxReconnectAttempts opts"
  shows "reconnectAttemptsRef (hook_run opts evs h) \<le> maxReconnectAttempts opts
    \<and> nextTimer (hook_run opts evs h) + reconnectAttemptsRef h
        = nextTimer h + reconnectAttemptsRef (hook_run opts evs h)"
  using assms
proof (induction evs arbitrary: h)
  case Nil
  then show ?case by (simp add: hook_run_def)
next
  case (Cons ev evs)
  from Cons.prems have ev: "no_open ev" and rest: "\<forall>e \<in> set evs. no_open e" by simp_all
  note step = hook_step_attempts [OF ev Cons.prems(2)]
  from Cons.IH [OF rest conjunct1 [OF step]] step
  show ?case by (simp add: hook_run_def)
qed

text \<open>
  C2, as the code has it.  Within the hook, over every sequence of events in which no
  socket opens and \<open>disconnect\<close> is not called, the attempt counter stays within
  \<open>maxReconnectAttempts\<close> and the hook sets at most as many reconnect timers as the counter
  had left; a close that finds the counter exhausted sets the status to \<open>Error\<close> and sets
  no timer.  The bound is the hook's alone: the effect of \<open>AvatarSystem\<close> sets its own
  reconnect timer whenever the status has become \<open>Disconnected\<close> or \<open>Error\<close>.
\<close>

theorem hook_reconnects_are_bounded:
  "((\<forall>ev \<in> set evs. no_open ev) \<and> reconnectAttemptsRef h \<le> maxReconnectAttempts opts \<longrightarrow>
      reconnectAttemptsRef (hook_run opts evs h) \<le> maxReconnectAttempts opts
      \<and> nextTimer (hook_run opts evs h) - nextTimer h
          \<le> maxReconnectAttempts opts - reconnectAttemptsRef h)
   \<and> (i < length (sockets h2) \<and> sockets h2 ! i \<noteq> CLOSED
        \<and> maxReconnectAttempts opts \<le> reconnectAttemptsRef h2 \<longrightarrow>
      connectionStatus (hook_step opts (WsClose i) h2) = Error
      \<and> timers (hook_step opts (WsClose i) h2) = timers h2
      \<and> nextTimer (hook_step opts (WsClose i) h2) = nextTimer h2)
   \<and> (connectionStatus (link_ws s) = Disconnected \<or> connectionStatus (link_ws s) = Error \<longrightarrow>
      link_timer (reconnect_effect s))"
proof -
  have bounded: "reconnectAttemptsRef (hook_run opts evs h) \<le> maxReconnectAttempts opts
      \<and> nextTimer (hook_run opts evs h) - nextTimer h
          \<le> maxReconnectAttempts opts - reconnectAttemptsRef h"
    if "\<forall>ev \<in> set evs. no_open ev" and "reconnectAttemptsRef h \<le> maxReconnectAttempts opts"
    using hook_run_attempts [OF that] by linarith
  have exhausted: "connectionStatus (hook_step opts (WsClose i) h2) = Error
      \<and> timers (hook_step opts (WsClose i) h2) = timers h2
      \<and> nextTimer (hook_step opts (WsClose i) h2) = nextTimer h2"
    if "i < length (sockets h2)" and "sockets h2 ! i \<noteq> CLOSED"
      and "maxReconnectAttempts opts \<le> reconnectAttemptsRef h2"
    using that by (simp add: hook_step_def ws_onclose_def)
  have effect: "link_timer (reconnect_effect s)"
    if "connectionStatus (link_ws s) = Disconnected \<or> connectionStatus (link_ws s) = Error"
    using that by (auto simp: reconnect_effect_def Let_def)
  show ?thesis using bounded exhausted effect by blast
qed

theorem hook_reconnects_are_bounded_witness:
  "no_open Connect \<and> no_open (WsFail 0) \<and> no_open (TimerFires 1) \<and> no_open (WsFail 1)
   \<and> reconnectAttemptsRef hook_init \<le> maxReconnectAttempts defaultOptions
   \<and> reconnectAttemptsRef
        (hook_run defaultOptions [Connect, WsFail 0, TimerFires 1, WsFail 1] hook_init) \<le> 5
   \<and> 5 < length (sockets (hook_run defaultOptions
        [Connect, WsFail 0, TimerFires 1, WsFail 1, TimerFires 2, WsFail 2, TimerFires 3,
         WsFail 3, TimerFires 4, WsFail 4, TimerFires 5] hook_init))
   \<and> sockets (hook_run defaultOptions
        [Connect, WsFail 0, TimerFires 1, WsFail 1, TimerFires 2, WsFail 2, TimerFires 3,
         WsFail 3, TimerFires 4, WsFail 4, TimerFires 5] hook_init) ! 5 \<noteq> CLOSED
   \<and> maxReconnectAttempts defaultOptions
       \<le> reconnectAttemptsRef (hook_run defaultOptions
        [Connect, WsFail 0, TimerFires 1, WsFail 1, TimerFires 2, WsFail 2, TimerFires 3,
         WsFail 3, TimerFires 4, WsFail 4, TimerFires 5] hook_init)
   \<and> connectionStatus (hook_step defaultOptions (WsClose 5) (hook_run defaultOptions
        [Connect, WsFail 0, TimerFires 1, WsFail 1, TimerFires 2, WsFail 2, TimerFires 3,
         WsFail 3, TimerFires 4, WsFail 4, TimerFires 5] hook_init)) = Error
   \<and> timers (hook_step defaultOptions (WsClose 5) (hook_run defaultOptions
        [Connect, WsFail 0, TimerFires 1, WsFail 1, TimerFires 2, WsFail 2, TimerFires 3,
         WsFail 3, TimerFires 4, WsFail 4, TimerFires 5] hook_init)) = []
   \<and> connectionStatus (link_ws \<lparr>link_ws = hook_init\<lparr>connectionStatus := Error\<rparr>,
         link_isConnected = False, link_timer = False\<rparr>) = Error
   \<and> link_timer (reconnect_effect \<lparr>link_ws = hook_init\<lparr>connectionStatus := Error\<rparr>,
         link_isConnected = False, link_timer = False\<rparr>)"
  using hook_reconnects_are_bounded
    [of "[Connect, WsFail 0, TimerFires 1, WsFail 1]" hook_init defaultOptions 5
        "hook_run defaultOptions
          [Connect, WsFail 0, TimerFires 1, WsFail 1, TimerFires 2, WsFail 2, TimerFires 3,
           WsFail 3, TimerFires 4, WsFail 4, TimerFires 5] hook_init"
        "\<lparr>link_ws = hook_init\<lparr>connectionStatus := Error\<rparr>,
          link_isConnected = False, link_timer = False\<rparr>"]
  by (simp add: no_open_def hook_run_def hook_step_def hook_init_def defaultOptions_def
      connect_def current_readyState_def ws_onclose_def ws_onerror_def reconnect_effect_def)

text \<open>
  The sentence of the specification fails in \<open>AvatarSystem\<close>: with a server that refuses every
  connection, the hook gives up after its five reconnects with the status \<open>Error\<close>, the
  component's timer is then pending, and when it fires \<open>connect\<close> opens a seventh socket.
\<close>

theorem reconnect_after_failed_counterexample:
  "connectionStatus (link_ws (link_run defaultOptions
      [Hook (WsFail 0), Hook (TimerFires 1), Hook (WsFail 1), Hook (TimerFires 2),
       Hook (WsFail 2), Hook (TimerFires 3), Hook (WsFail 3), Hook (TimerFires 4),
       Hook (WsFail 4), Hook (TimerFires 5), Hook (WsFail 5)]
      (link_mount defaultOptions))) = Error
   \<and> reconnectAttemptsRef (link_ws (link_run defaultOptions
      [Hook (WsFail 0), Hook (TimerFires 1), Hook (WsFail 1), Hook (TimerFires 2),
       Hook (WsFail 2), Hook (TimerFires 3), Hook (WsFail 3), Hook (TimerFires 4),
       Hook (WsFail 4), Hook (TimerFires 5), Hook (WsFail 5)]
      (link_mount defaultOptions))) = 5
   \<and> link_timer (link_run defaultOptions
      [Hook (WsFail 0), Hook (TimerFires 1), Hook (WsFail 1), Hook (TimerFires 2),
       Hook (WsFail 2), Hook (TimerFires 3), Hook (WsFail 3), Hook (TimerFires 4),
       Hook (WsFail 4), Hook (TimerFires 5), Hook (WsFail 5)]
      (link_mount defaultOptions))
   \<and> sockets (link_ws (link_run defaultOptions
      [Hook (WsFail 0), Hook (TimerFires 1), Hook (WsFail 1), Hook (TimerFires 2),
       Hook (WsFail 2), Hook (TimerFires 3), Hook (WsFail 3), Hook (TimerFires 4),
       Hook (WsFail 4), Hook (TimerFires 5), Hook (WsFail 5), LinkTimerFires]
      (link_mount defaultOptions)))
     = [CLOSED, CLOSED, CLOSED, CLOSED, CLOSED, CLOSED, CONNECTING]
   \<and> connectionStatus (link_ws (link_run defaultOptions
      [Hook (WsFail 0), Hook (TimerFires 1), Hook (WsFail 1), Hook (TimerFires 2),
       Hook (WsFail 2), Hook (TimerFires 3), Hook (WsFail 3), Hook (TimerFires 4),
       Hook (WsFail 4), Hook (TimerFires 5), Hook (WsFail 5), LinkTimerFires]
      (link_mount defaultOptions))) = Connecting"
  by (simp add: link_run_def link_step_def link_mount_def reconnect_effect_def hook_step_def
      hook_init_def defaultOptions_def connect_def current_readyState_def ws_onclose_def
      ws_onerror_def Let_def)

section \<open>Connecting twice\<close>

text \<open>With the current socket open, \<open>connect\<close> does nothing.\<close>

lemma connect_when_open: "current_readyState h = Some OPEN \<Longrightarrow> connect opts h = h"
  by (simp add: connect_def)

text \<open>
  C9.  While the socket is still connecting it does not: \<open>connect\<close> guards on \<open>OPEN\<close>
  only, so a second \<open>connect\<close> right after the first constructs a second socket and moves
  the ref to it, leaving the first one connecting with its handlers attached.
\<close>

theorem second_connect_opens_second_socket:
  "connect defaultOptions hook_init
     = hook_init\<lparr>connectionStatus := Connecting, sockets := [CONNECTING], wsRef := Some 0\<rparr>
   \<and> connect defaultOptions (connect defaultOptions hook_init)
     = hook_init\<lparr>connectionStatus := Connecting, sockets := [CONNECTING, CONNECTING],
                 wsRef := Some 1\<rparr>
   \<and> connect defaultOptions (connect defaultOptions hook_init) \<noteq> connect defaultOptions hook_init"
  by (simp add: connect_def hook_init_def defaultOptions_def current_readyState_def)

section \<open>Sending\<close>

text \<open>
  C7, as the code has it.  \<open>sendMessage\<close> tests the \<open>readyState\<close> of the socket in the
  ref, not \<open>connectionStatus\<close>: with no socket in the ref or one that is not open it
  returns false and changes nothing, in particular in the initial state and after
  \<open>disconnect\<close>; with an open one it hands the frame to that socket and returns true.
\<close>

theorem send_needs_open_transport:
  "(current_readyState h1 \<noteq> Some OPEN \<longrightarrow> sendMessage m h1 = (False, h1))
   \<and> (current_readyState h2 = Some OPEN \<longrightarrow>
        (\<exists>i. wsRef h2 = Some i \<and> sendMessage m h2 = (True, h2\<lparr>sent := sent h2 @ [(i, m)]\<rparr>)))
   \<and> sendMessage m (disconnect h) = (False, disconnect h)
   \<and> sendMessage m hook_init = (False, hook_init)"
  by (auto simp: sendMessage_def current_readyState_def disconnect_def hook_init_def Let_def
      split: option.splits if_splits)

theorem send_needs_open_transport_witness:
  "current_readyState hook_init \<noteq> Some OPEN
   \<and> sendMessage (Str (of_ascii ''ping'')) hook_init = (False, hook_init)
   \<and> current_readyState (hook_run defaultOptions [Connect, WsOpen 0] hook_init) = Some OPEN
   \<and> sendMessage (Str (of_ascii ''ping'')) (hook_run defaultOptions [Connect, WsOpen 0] hook_init)
       = (True, (hook_run defaultOptions [Connect, WsOpen 0] hook_init)
                  \<lparr>sent := [(0, Str (of_ascii ''ping''))]\<rparr>)"
  using send_needs_open_transport
    [of hook_init "Str (of_ascii ''ping'')"
        "hook_run defaultOptions [Connect, WsOpen 0] hook_init"]
  by (simp add: hook_run_def hook_step_def hook_init_def defaultOptions_def connect_def
      current_readyState_def ws_onopen_def)

text \<open>
  The sentence of the specification fails: the status and the socket can disagree.  After connect,
  open, disconnect, connect, open of the second socket and the late close event of the
  first, the status is \<open>Disconnected\<close> while the ref holds the open second socket, and
  \<open>sendMessage\<close> sends and returns true.
\<close>

theorem send_while_disconnected_counterexample:
  "connectionStatus (hook_run defaultOptions
      [Connect, WsOpen 0, Disconnect, Connect, WsOpen 1, WsClose 0] hook_init) = Disconnected
   \<and> fst (sendMessage (Str (of_ascii ''ping'')) (hook_run defaultOptions
      [Connect, WsOpen 0, Disconnect, Connect, WsOpen 1, WsClose 0] hook_init))
   \<and> sent (snd (sendMessage (Str (of_ascii ''ping'')) (hook_run defaultOptions
      [Connect, WsOpen 0, Disconnect, Connect, WsOpen 1, WsClose 0] hook_init)))
     = [(1, Str (of_ascii ''ping''))]"
  by (simp add: hook_run_def hook_step_def hook_init_def defaultOptions_def connect_def
      disconnect_def ws_close_def current_readyState_def ws_onopen_def ws_onclose_def
      sendMessage_def)

section \<open>Health probes\<close>

text \<open>
  C8, as the code has it.  Once all three probes have settled, \<open>checkServices\<close> resolves,
  and each flag is true exactly when its own probe was fulfilled with an \<open>ok\<close> response:
  a probe that is rejected or answered with an error status turns only its own flag
  off.  The probes have no timeout; while one of them never settles, \<open>checkServices\<close>
  does not resolve.
\<close>

theorem probes_are_judged_apart:
  "(NeverSettles \<notin> {p0, p1, p2} \<longrightarrow>
      (\<exists>r. checkServices p0 p1 p2 = Some r
         \<and> (backend r \<longleftrightarrow> (\<exists>st. p0 = Fulfils st \<and> ok st))
         \<and> (tts r \<longleftrightarrow> (\<exists>st. p1 = Fulfils st \<and> ok st))
         \<and> (sadtalker r \<longleftrightarrow> (\<exists>st. p2 = Fulfils st \<and> ok st))))
   \<and> (NeverSettles \<in> {q0, q1, q2} \<longrightarrow> checkServices q0 q1 q2 = None)"
  by (cases p0; cases p1; cases p2)
    (auto simp: checkServices_def allSettled_def fulfilled_ok_def)

theorem probes_are_judged_apart_witness:
  "NeverSettles \<notin> {Fulfils 200, Rejects, Fulfils 500}
   \<and> checkServices (Fulfils 200) Rejects (Fulfils 500)
       = Some \<lparr>backend = True, tts = False, sadtalker = False\<rparr>
   \<and> NeverSettles \<in> {Fulfils 200, Fulfils 200, NeverSettles}
   \<and> checkServices (Fulfils 200) (Fulfils 200) NeverSettles = None"
  using probes_are_judged_apart
    [of "Fulfils 200" Rejects "Fulfils 500" "Fulfils 200" "Fulfils 200" NeverSettles]
  by (auto simp: ok_def)

text \<open>
  The sentence of the specification fails where it says a timeout counts as a failure: with two
  healthy services and a third probe that hangs, no status is returned at all.
\<close>

theorem hanging_probe_counterexample:
  "checkServices (Fulfils 200) (Fulfils 200) NeverSettles = None
   \<and> checkServices (Fulfils 200) (Fulfils 200) NeverSettles
       \<noteq> Some \<lparr>backend = True, tts = True, sadtalker = False\<rparr>"
  by (simp add: checkServices_def allSettled_def)

end
